theory Spec2Isabelle
  imports Complex_Main "HOL-Library.Sublist"
begin

section \<open>The rate limiter of the agent (src/agent.py, ratelimit_ok)\<close>

text \<open>
  The module keeps two globals, \<open>_last_bucket\<close> and \<open>_msgs_in_bucket\<close>, both Python
  integers. They are the two fields of the record below. The wall clock read by
  \<open>time.time()\<close> is an input of every call: a number of seconds since the epoch.
\<close>

definition RATE_LIMIT_PER_MIN :: int where
  "RATE_LIMIT_PER_MIN = 60"

record rate_state =
  last_bucket :: int
  msgs_in_bucket :: int

text \<open>\<open>int(time.time() // 60)\<close>: the index of the minute that holds the clock reading.\<close>

definition bucket_of :: "real \<Rightarrow> int" where
  "bucket_of now = \<lfloor>now / 60\<rfloor>"

text \<open>
  \<open>ratelimit_ok\<close> returns the verdict together with the globals as the call leaves them.
  The three statements of the source are kept in their order: the reset when the minute
  has changed, the denial at the limit, the increment.
\<close>

definition ratelimit_ok :: "real \<Rightarrow> rate_state \<Rightarrow> bool \<times> rate_state" where
  "ratelimit_ok now s =
     (let now_bucket = bucket_of now;
          s1 = (if now_bucket \<noteq> last_bucket s
                then s\<lparr>last_bucket := now_bucket, msgs_in_bucket := 0\<rparr>
                else s)
      in if msgs_in_bucket s1 \<ge> RATE_LIMIT_PER_MIN then (False, s1)
         else (True, s1\<lparr>msgs_in_bucket := msgs_in_bucket s1 + 1\<rparr>))"

text \<open>A run of calls, one per clock reading, collecting the verdicts in call order.\<close>

fun ratelimit_calls :: "real list \<Rightarrow> rate_state \<Rightarrow> bool list \<times> rate_state" where
  "ratelimit_calls [] s = ([], s)"
| "ratelimit_calls (t # ts) s =
     (let (ok, s1) = ratelimit_ok t s;
          (oks, s2) = ratelimit_calls ts s1
      in (ok # oks, s2))"

text \<open>
  The states the rate limiter can be in: the module sets the counter to 0 and the bucket
  to the minute of import, and only \<open>ratelimit_ok\<close> writes the two globals afterwards.
\<close>

inductive rate_reachable :: "rate_state \<Rightarrow> bool" where
  rate_init: "rate_reachable \<lparr>last_bucket = bucket_of t0, msgs_in_bucket = 0\<rparr>"
| rate_step: "rate_reachable s \<Longrightarrow> rate_reachable (snd (ratelimit_ok now s))"

section \<open>Python strings\<close>

text \<open>
  A Python \<open>str\<close> is a sequence of code points. It is modelled as a \<open>string\<close> whose
  characters are the code points 0 to 255 (Latin-1); \<open>length\<close> then counts what
  Python's \<open>len\<close> counts. Text with code points beyond 255 is outside the model. The
  two string literals of the source that hold typographic quotation marks are the only
  exception: each mark is written as the three bytes of its UTF-8 form, and no function
  of the model looks inside those literals.
\<close>

text \<open>
  \<open>str.isspace\<close> on one character, which is also the class \<open>\s\<close> of \<open>re\<close> on a
  \<open>str\<close> pattern: tab, line feed, vertical tab, form feed, carriage return, the four
  separators 0x1C to 0x1F, the space, NEL (0x85) and the no-break space (0xA0).
\<close>

definition isspace :: "char \<Rightarrow> bool" where
  "isspace c \<longleftrightarrow> c \<in> set [CHR 0x09, CHR 0x0A, CHR 0x0B, CHR 0x0C, CHR 0x0D,
                           CHR 0x1C, CHR 0x1D, CHR 0x1E, CHR 0x1F, CHR 0x20, CHR 0x85, CHR 0xA0]"

text \<open>\<open>str.strip()\<close>: drops the whitespace at both ends.\<close>

definition strip :: "string \<Rightarrow> string" where
  "strip s = rev (dropWhile isspace (rev (dropWhile isspace s)))"

text \<open>
  \<open>str.lower()\<close>. In Latin-1 the upper-case letters are A to Z (65 to 90) and 0xC0 to
  0xDE without the multiplication sign 0xD7; the lower-case form is 32 code points
  further.
\<close>

definition lower_char :: "char \<Rightarrow> char" where
  "lower_char c =
     (let n = (of_char c :: nat)
      in if (65 \<le> n \<and> n \<le> 90) \<or> (192 \<le> n \<and> n \<le> 222 \<and> n \<noteq> 215)
         then char_of (n + 32) else c)"

definition lower :: "string \<Rightarrow> string" where
  "lower s = map lower_char s"

text \<open>\<open>sep.join(parts)\<close>.\<close>

fun join :: "string \<Rightarrow> string list \<Rightarrow> string" where
  "join sep [] = []"
| "join sep [x] = x"
| "join sep (x # y # ys) = x @ sep @ join sep (y # ys)"

text \<open>The slice \<open>xs[-n:]\<close> for \<open>n > 0\<close>: the last \<open>n\<close> elements, or all of a shorter list.\<close>

definition last_n :: "nat \<Rightarrow> 'a list \<Rightarrow> 'a list" where
  "last_n n xs = drop (length xs - n) xs"

text \<open>
  \<open>s.replace(old, new)\<close>: every occurrence of \<open>old\<close>, found from the left without
  overlap. For an empty \<open>old\<close> Python puts \<open>new\<close> before every character and at the end.
\<close>

function replace_from :: "string \<Rightarrow> string \<Rightarrow> string \<Rightarrow> string" where
  "replace_from old new [] = []"
| "replace_from old new (c # cs) =
     (if old \<noteq> [] \<and> prefix old (c # cs)
      then new @ replace_from old new (drop (length old) (c # cs))
      else c # replace_from old new cs)"
  by pat_completeness auto
termination
  by (relation "measure (\<lambda>(old, new, s). length s)") auto

definition replace :: "string \<Rightarrow> string \<Rightarrow> string \<Rightarrow> string" where
  "replace s old new =
     (if old = [] then new @ concat (map (\<lambda>c. c # new) s) else replace_from old new s)"

section \<open>The memory document and its file\<close>

text \<open>
  The document is the dictionary \<open>{"notes": [...], "metrics": {"messages": ..,
  "start_ts": ..}}\<close>; a note is \<open>{"text": .., "ts": ..}\<close>. The records fix this
  shape, which is the one \<open>load_mem\<close> creates and the tools maintain; the fields
  \<open>mem_notes\<close> and \<open>mem_metrics\<close> are the keys \<open>"notes"\<close> and \<open>"metrics"\<close>.
\<close>

record mem_note =
  note_text :: string
  note_ts :: string

record metrics =
  messages :: int
  start_ts :: real

record mem_doc =
  mem_notes :: "mem_note list"
  mem_metrics :: metrics

text \<open>
  The file system: the contents of the files by path, and the trace of the operations
  the module has performed on it, oldest first. Opening, writing and replacing a file
  are taken to succeed.
\<close>

datatype file_op = Write_file string string | Replace_file string string

record disk =
  files :: "string \<rightharpoonup> string"
  ops :: "file_op list"

text \<open>\<open>MEM_PATH\<close>, relative to the directory of the module.\<close>

definition MEM_PATH :: string where
  "MEM_PATH = ''memory.json''"

text \<open>
  What the code calls but does not define. \<open>py_eval\<close> is the builtin \<open>eval\<close> with the
  empty environments the source passes, \<open>py_format\<close> the conversion of the value inside
  the f-string; each returns its result or the exception it raises. \<open>json_dumps\<close> is the text
  \<open>json.dump(mem, f, indent=2)\<close> writes, \<open>json_loads\<close> what \<open>json.load\<close> reads back,
  \<open>None\<close> when it raises; a file that parses to something else than a document is
  outside the model. An exception is kept with its message, and with whether
  \<open>except Exception\<close> catches it.
\<close>

datatype py_exn = Exception string | BaseException string

record 'v platform =
  py_eval :: "string \<Rightarrow> py_exn + 'v"
  py_format :: "'v \<Rightarrow> py_exn + string"
  json_dumps :: "mem_doc \<Rightarrow> string"
  json_loads :: "string \<Rightarrow> mem_doc option"

definition default_mem :: "real \<Rightarrow> mem_doc" where
  "default_mem now = \<lparr>mem_notes = [], mem_metrics = \<lparr>messages = 0, start_ts = now\<rparr>\<rparr>"

text \<open>
  \<open>load_mem\<close>: the parsed file when it exists and parses, the fresh document otherwise
  (the exception is swallowed). \<open>now\<close> is the clock reading of the fresh document.
\<close>

definition load_mem :: "'v platform \<Rightarrow> real \<Rightarrow> disk \<Rightarrow> mem_doc" where
  "load_mem P now d =
     (case files d MEM_PATH of
        None \<Rightarrow> default_mem now
      | Some content \<Rightarrow>
          (case json_loads P content of
             Some m \<Rightarrow> m
           | None \<Rightarrow> default_mem now))"

text \<open>\<open>save_mem\<close>: writes the temporary file, then \<open>os.replace\<close> moves it over the target.\<close>

definition save_mem :: "'v platform \<Rightarrow> mem_doc \<Rightarrow> disk \<Rightarrow> disk" where
  "save_mem P m d =
     (let tmp = MEM_PATH @ ''.tmp'';
          d1 = d\<lparr>files := (files d)(tmp \<mapsto> json_dumps P m),
                 ops := ops d @ [Write_file tmp (json_dumps P m)]\<rparr>
      in d1\<lparr>files := (files d1)(MEM_PATH := files d1 tmp, tmp := None),
            ops := ops d1 @ [Replace_file tmp MEM_PATH]\<rparr>)"

section \<open>The state of the module\<close>

record agent_state =
  mem :: mem_doc
  rate :: rate_state
  disk :: disk

text \<open>
  The state after import: \<open>mem = load_mem()\<close>, the bucket of the clock, the counter 0.
  \<open>t0\<close> and \<open>t1\<close> are the two clock readings.
\<close>

definition init_state :: "'v platform \<Rightarrow> real \<Rightarrow> real \<Rightarrow> disk \<Rightarrow> agent_state" where
  "init_state P t0 t1 d =
     \<lparr>mem = load_mem P t0 d,
      rate = \<lparr>last_bucket = bucket_of t1, msgs_in_bucket = 0\<rparr>,
      disk = d\<rparr>"

section \<open>The tools\<close>

subsection \<open>tool_calc\<close>

text \<open>
  The character class \<open>[^0-9+\-*/(). ]\<close> matches every character that is neither in the
  range 0 to 9 nor one of the eight listed characters, the last of which is the space.
\<close>

definition calc_class :: "char \<Rightarrow> bool" where
  "calc_class c \<longleftrightarrow> \<not> (c \<in> set ''0123456789'' \<or> c \<in> set ''+-*/(). '')"

text \<open>\<open>re.sub(class, "", expr)\<close>: scans from the left and drops each matching character.\<close>

primrec sanitize :: "string \<Rightarrow> string" where
  "sanitize [] = []"
| "sanitize (c # cs) = (if calc_class c then sanitize cs else c # sanitize cs)"

text \<open>
  The \<open>try\<close> block holds both the evaluation and the f-string, so an \<open>Exception\<close> of
  either becomes the error text; any other exception leaves the function.
\<close>

definition tool_calc :: "'v platform \<Rightarrow> string \<Rightarrow> py_exn + string" where
  "tool_calc P expr0 =
     (let expr = sanitize expr0
      in case py_eval P expr of
           Inl (Exception e) \<Rightarrow> Inr (''Calc error: '' @ e)
         | Inl (BaseException e) \<Rightarrow> Inl (BaseException e)
         | Inr val \<Rightarrow>
             (case py_format P val of
                Inl (Exception e) \<Rightarrow> Inr (''Calc error: '' @ e)
              | Inl (BaseException e) \<Rightarrow> Inl (BaseException e)
              | Inr shown \<Rightarrow> Inr (expr @ '' = '' @ shown)))"

subsection \<open>tool_remember and tool_recall\<close>

text \<open>The typographic marks of the source's literals, in UTF-8.\<close>

definition ldquo :: string where
  "ldquo = [CHR 0xE2, CHR 0x80, CHR 0x9C]"

definition rdquo :: string where
  "rdquo = [CHR 0xE2, CHR 0x80, CHR 0x9D]"

definition rsquo :: string where
  "rsquo = [CHR 0xE2, CHR 0x80, CHR 0x99]"

text \<open>
  \<open>tool_remember\<close>; \<open>stamp\<close> is \<open>datetime.utcnow().isoformat()\<close>. The note is appended
  to the document in memory and the document is saved.
\<close>

definition tool_remember ::
  "'v platform \<Rightarrow> string \<Rightarrow> string \<Rightarrow> agent_state \<Rightarrow> string \<times> agent_state" where
  "tool_remember P stamp txt st =
     (let item = \<lparr>note_text = strip txt, note_ts = stamp @ ''Z''\<rparr>;
          m = (mem st)\<lparr>mem_notes := mem_notes (mem st) @ [item]\<rparr>
      in (''Saved: '' @ ldquo @ strip txt @ rdquo,
          st\<lparr>mem := m, disk := save_mem P m (disk st)\<rparr>))"

text \<open>
  The line of one hit: a dash and a space, the text, then the time stamp after an at sign,
  in parentheses.
\<close>

definition recall_line :: "mem_note \<Rightarrow> string" where
  "recall_line h = ''- '' @ note_text h @ '' (@'' @ note_ts h @ '')''"

text \<open>\<open>q in s\<close> on strings is \<open>sublist q s\<close>: \<open>q\<close> occurs in \<open>s\<close> as a contiguous run.\<close>

definition tool_recall :: "string \<Rightarrow> agent_state \<Rightarrow> string" where
  "tool_recall query st =
     (let q = lower (strip query);
          hits = (if q \<noteq> []
                  then filter (\<lambda>n. sublist q (lower (note_text n))) (mem_notes (mem st))
                  else last_n 5 (mem_notes (mem st)))
      in if hits = [] then ''No memory found.''
         else ''Recent memory:'' @ [CHR 0x0A] @ join [CHR 0x0A] (map recall_line (last_n 5 hits)))"

section \<open>The dispatcher\<close>

text \<open>
  \<open>re.match(r"^/(calc|remember|recall)\s*(.*)$", s, flags=re.I)\<close>, piece by piece.

  A command word of the pattern matches the start of the text when the text has that
  many characters and they are the word up to case.
\<close>

definition match_word :: "string \<Rightarrow> string \<Rightarrow> bool" where
  "match_word w r \<longleftrightarrow> length w \<le> length r \<and> lower (take (length w) r) = w"

text \<open>
  \<open>(.*)$\<close> after \<open>\s*\<close> has taken \<open>j\<close> characters: the group takes every character up
  to the first line feed, and \<open>$\<close> holds at the end of the text or before a line feed
  that ends the text. A shorter group cannot satisfy \<open>$\<close> when the longest does not.
\<close>

definition match_arg :: "nat \<Rightarrow> string \<Rightarrow> string option" where
  "match_arg j r =
     (let t = drop j r;
          a = takeWhile (\<lambda>c. c \<noteq> CHR 0x0A) t;
          rest = drop (length a) t
      in if rest = [] \<or> rest = [CHR 0x0A] then Some a else None)"

text \<open>\<open>\s*\<close> is greedy: it tries \<open>j\<close> characters first and gives them back one by one.\<close>

fun match_spaces :: "nat \<Rightarrow> string \<Rightarrow> string option" where
  "match_spaces 0 r = match_arg 0 r"
| "match_spaces (Suc j) r =
     (case match_arg (Suc j) r of
        Some a \<Rightarrow> Some a
      | None \<Rightarrow> match_spaces j r)"

definition match_rest :: "string \<Rightarrow> string option" where
  "match_rest r = match_spaces (length (takeWhile isspace r)) r"

text \<open>The alternatives of the first group, tried in the order of the pattern.\<close>

fun match_alternatives :: "string list \<Rightarrow> string \<Rightarrow> (string \<times> string) option" where
  "match_alternatives [] r = None"
| "match_alternatives (w # ws) r =
     (if match_word w r
      then (case match_rest (drop (length w) r) of
              Some a \<Rightarrow> Some (take (length w) r, a)
            | None \<Rightarrow> match_alternatives ws r)
      else match_alternatives ws r)"

text \<open>The match object as the pair of its two groups; \<open>None\<close> when the pattern fails.\<close>

definition re_match_command :: "string \<Rightarrow> (string \<times> string) option" where
  "re_match_command s =
     (case s of
        [] \<Rightarrow> None
      | c # r \<Rightarrow>
          if c = CHR ''/'' then match_alternatives [''calc'', ''remember'', ''recall''] r
          else None)"

text \<open>
  \<open>try_tools\<close>: the result is \<open>Inr None\<close> where the source returns \<open>None\<close>,
  \<open>Inr (Some out)\<close> where it returns a string, and \<open>Inl\<close> where an exception leaves it.
\<close>

definition try_tools ::
  "'v platform \<Rightarrow> string \<Rightarrow> string \<Rightarrow> agent_state \<Rightarrow> (py_exn + string option) \<times> agent_state" where
  "try_tools P stamp message_text st =
     (case re_match_command (strip message_text) of
        None \<Rightarrow> (Inr None, st)
      | Some (g1, arg) \<Rightarrow>
          (let cmd = lower g1
           in if cmd = ''calc''
              then (case tool_calc P arg of
                      Inl e \<Rightarrow> (Inl e, st)
                    | Inr out \<Rightarrow> (Inr (Some out), st))
              else if cmd = ''remember''
              then (let (out, st1) = tool_remember P stamp arg st in (Inr (Some out), st1))
              else if cmd = ''recall''
              then (Inr (Some (tool_recall arg st)), st)
              else (Inr (Some (''Unknown command: /'' @ cmd)), st)))"

section \<open>The entry point\<close>

text \<open>\<open>mem["metrics"]["messages"] += 1\<close> followed by \<open>save_mem(mem)\<close>.\<close>

definition count_message :: "'v platform \<Rightarrow> agent_state \<Rightarrow> agent_state" where
  "count_message P st =
     (let m = (mem st)\<lparr>mem_metrics :=
                 (mem_metrics (mem st))\<lparr>messages := messages (mem_metrics (mem st)) + 1\<rparr>\<rparr>
      in st\<lparr>mem := m, disk := save_mem P m (disk st)\<rparr>)"

definition refusal :: string where
  "refusal = ''I can'' @ rsquo @ ''t ignore my instructions, but happy to help.''"

definition denial :: string where
  "denial = ''Rate limit exceeded. Try again in a minute.''"

text \<open>
  Step 3 of \<open>improve\<close>, the part after the tools have returned \<open>None\<close>: the response, the
  memory hint, the bookkeeping, and the tagged text. \<open>memory_hint\<close> is the value of the
  source's variable of that name.
\<close>

definition memory_hint :: "agent_state \<Rightarrow> string" where
  "memory_hint st =
     (if mem_notes (mem st) \<noteq> []
      then '' (FYI I remember: ''
           @ join '', '' (map note_text (last_n 2 (mem_notes (mem st)))) @ '')''
      else [])"

definition compose :: "'v platform \<Rightarrow> string \<Rightarrow> agent_state \<Rightarrow> string \<times> agent_state" where
  "compose P user st =
     (let resp = (if sublist ''ignore previous'' (lower user) then refusal
                  else replace (replace (replace user ''hello'' ''greetings'')
                                  ''Hello'' ''Greetings'') ''goodbye'' ''farewell'')
      in (''[nanda] '' @ resp @ memory_hint st, count_message P st))"

text \<open>
  \<open>improve\<close>, the function the framework calls with each message. \<open>now\<close> is the clock
  reading of the rate limiter and \<open>stamp\<close> the time stamp a new note would get.
\<close>

definition improve ::
  "'v platform \<Rightarrow> real \<Rightarrow> string \<Rightarrow> string \<Rightarrow> agent_state \<Rightarrow> (py_exn + string) \<times> agent_state" where
  "improve P now stamp message_text st =
     (let (ok, r) = ratelimit_ok now (rate st);
          st1 = st\<lparr>rate := r\<rparr>
      in if \<not> ok then (Inr denial, st1)
         else (case try_tools P stamp message_text st1 of
                 (Inl e, st2) \<Rightarrow> (Inl e, st2)
               | (Inr (Some tool_out), st2) \<Rightarrow> (Inr tool_out, count_message P st2)
               | (Inr None, st2) \<Rightarrow>
                   (let (out, st3) = compose P message_text st2 in (Inr out, st3))))"

section \<open>The specification's reading of the calculator's filter\<close>

text \<open>
  The characters the specification says the calculator keeps: a digit, one of
  \<open>+-*/().\<close>, or whitespace. \<open>kept_as_specified\<close> takes "whitespace" as every whitespace
  character; \<open>kept\<close> takes it as the space alone.
\<close>

definition is_digit :: "char \<Rightarrow> bool" where
  "is_digit c \<longleftrightarrow> 48 \<le> (of_char c :: nat) \<and> (of_char c :: nat) \<le> 57"

definition kept_as_specified :: "char \<Rightarrow> bool" where
  "kept_as_specified c \<longleftrightarrow> is_digit c \<or> c \<in> set ''+-*/().'' \<or> isspace c"

definition kept :: "char \<Rightarrow> bool" where
  "kept c \<longleftrightarrow> is_digit c \<or> c \<in> set ''+-*/().'' \<or> c = CHR '' ''"

section \<open>A sample platform and sample states\<close>

text \<open>
  Concrete values at which the theorems below are instantiated. The sample evaluator
  answers three expressions the way Python does and rejects every other text; the sample
  JSON functions know one document.
\<close>

definition sample_doc :: mem_doc where
  "sample_doc =
     \<lparr>mem_notes = [\<lparr>note_text = ''buy milk'', note_ts = ''2024-01-01T00:00:00Z''\<rparr>],
      mem_metrics = \<lparr>messages = 3, start_ts = 100\<rparr>\<rparr>"

definition sample_platform :: "int platform" where
  "sample_platform =
     \<lparr>py_eval = (\<lambda>s. if s = ''2+2'' then Inr 4
                     else if s = ''1+1'' then Inr 2
                     else if s = ''1/0'' then Inl (Exception ''division by zero'')
                     else Inl (Exception ''invalid syntax'')),
      py_format = (\<lambda>v. Inr (if v = 4 then ''4'' else if v = 2 then ''2'' else ''0'')),
      json_dumps = (\<lambda>m. if m = sample_doc then ''sample'' else ''other''),
      json_loads = (\<lambda>s. if s = ''sample'' then Some sample_doc else None)\<rparr>"

definition empty_disk :: disk where
  "empty_disk = \<lparr>files = Map.empty, ops = []\<rparr>"

definition sample_state :: agent_state where
  "sample_state =
     \<lparr>mem = default_mem 100,
      rate = \<lparr>last_bucket = 2, msgs_in_bucket = 0\<rparr>,
      disk = empty_disk\<rparr>"

definition full_state :: agent_state where
  "full_state =
     \<lparr>mem = sample_doc,
      rate = \<lparr>last_bucket = 2, msgs_in_bucket = 60\<rparr>,
      disk = empty_disk\<rparr>"


definition busy_state :: agent_state where
  "busy_state =
     \<lparr>mem = \<lparr>mem_notes = [\<lparr>note_text = ''n1'', note_ts = ''t1''\<rparr>,
                            \<lparr>note_text = ''n2'', note_ts = ''t2''\<rparr>,
                            \<lparr>note_text = ''n3'', note_ts = ''t3''\<rparr>,
                            \<lparr>note_text = ''n4'', note_ts = ''t4''\<rparr>,
                            \<lparr>note_text = ''n5'', note_ts = ''t5''\<rparr>,
                            \<lparr>note_text = ''n6'', note_ts = ''t6''\<rparr>],
              mem_metrics = \<lparr>messages = 6, start_ts = 100\<rparr>\<rparr>,
      rate = \<lparr>last_bucket = 2, msgs_in_bucket = 6\<rparr>,
      disk = empty_disk\<rparr>"

section \<open>Properties of the rate limiter\<close>

lemma ratelimit_ok_same_bucket_below:
  "bucket_of t = last_bucket s \<Longrightarrow> msgs_in_bucket s < 60 \<Longrightarrow>
   ratelimit_ok t s = (True, s\<lparr>msgs_in_bucket := msgs_in_bucket s + 1\<rparr>)"
  by (simp add: ratelimit_ok_def RATE_LIMIT_PER_MIN_def)

lemma ratelimit_ok_denies_iff:
  "fst (ratelimit_ok t s) = False \<longleftrightarrow> bucket_of t = last_bucket s \<and> msgs_in_bucket s \<ge> 60"
  by (auto simp add: ratelimit_ok_def RATE_LIMIT_PER_MIN_def Let_def)

lemma ratelimit_ok_deny_keeps_state:
  "fst (ratelimit_ok t s) = False \<Longrightarrow> snd (ratelimit_ok t s) = s"
  by (auto simp add: ratelimit_ok_def RATE_LIMIT_PER_MIN_def Let_def split: if_splits)

text \<open>Within one minute and below the limit, a run of calls is admitted call by call.\<close>

lemma ratelimit_calls_admit_all:
  "\<forall>t\<in>set ts. bucket_of t = last_bucket s \<Longrightarrow>
   msgs_in_bucket s + int (length ts) \<le> 60 \<Longrightarrow>
   ratelimit_calls ts s =
     (replicate (length ts) True, s\<lparr>msgs_in_bucket := msgs_in_bucket s + int (length ts)\<rparr>)"
proof (induction ts arbitrary: s)
  case Nil
  then show ?case by simp
next
  case (Cons t ts)
  let ?s1 = "s\<lparr>msgs_in_bucket := msgs_in_bucket s + 1\<rparr>"
  from Cons.prems have step: "ratelimit_ok t s = (True, ?s1)"
    by (intro ratelimit_ok_same_bucket_below) auto
  from Cons.prems have "ratelimit_calls ts ?s1 =
     (replicate (length ts) True, ?s1\<lparr>msgs_in_bucket := msgs_in_bucket ?s1 + int (length ts)\<rparr>)"
    by (intro Cons.IH) auto
  with step show ?case by (simp add: add.assoc add.commute)
qed

text \<open>
  Claim C1. Start from any state whose counter is 0 and make calls whose clock readings
  all lie in the stored minute. Up to 60 calls are all admitted. After exactly 60 the
  counter is 60, and a 61st call in the same minute is denied and leaves the state as it
  was. In general a denying call returns the state unchanged, so it does not count.
\<close>

theorem ratelimit_sixty_then_deny:
  assumes start: "msgs_in_bucket s = 0"
    and same: "\<forall>t\<in>set ts. bucket_of t = last_bucket s"
  shows "(length ts \<le> 60 \<longrightarrow> fst (ratelimit_calls ts s) = replicate (length ts) True)
       \<and> (length ts = 60 \<and> bucket_of t61 = last_bucket s \<longrightarrow>
            ratelimit_ok t61 (snd (ratelimit_calls ts s)) = (False, snd (ratelimit_calls ts s))
          \<and> msgs_in_bucket (snd (ratelimit_calls ts s)) = 60)
       \<and> (\<forall>t s'. fst (ratelimit_ok t s') = False \<longrightarrow> snd (ratelimit_ok t s') = s')"
proof (intro conjI impI allI)
  assume "length ts \<le> 60"
  with start same show "fst (ratelimit_calls ts s) = replicate (length ts) True"
    by (simp add: ratelimit_calls_admit_all)
next
  assume h: "length ts = 60 \<and> bucket_of t61 = last_bucket s"
  with start same have run: "ratelimit_calls ts s = (replicate 60 True, s\<lparr>msgs_in_bucket := 60\<rparr>)"
    using ratelimit_calls_admit_all [of ts s] by simp
  with h show "ratelimit_ok t61 (snd (ratelimit_calls ts s)) = (False, snd (ratelimit_calls ts s))"
    by (simp add: ratelimit_ok_def RATE_LIMIT_PER_MIN_def)
  from run show "msgs_in_bucket (snd (ratelimit_calls ts s)) = 60" by simp
next
  fix t s' assume "fst (ratelimit_ok t s') = False"
  then show "snd (ratelimit_ok t s') = s'" by (rule ratelimit_ok_deny_keeps_state)
qed

theorem ratelimit_sixty_then_deny_witness:
  "msgs_in_bucket \<lparr>last_bucket = 2, msgs_in_bucket = 0\<rparr> = 0
   \<and> bucket_of 125 = 2 \<and> bucket_of 130 = 2
   \<and> fst (ratelimit_calls (replicate 60 125) \<lparr>last_bucket = 2, msgs_in_bucket = 0\<rparr>) = replicate 60 True
   \<and> fst (ratelimit_ok 130 (snd (ratelimit_calls (replicate 60 125) \<lparr>last_bucket = 2, msgs_in_bucket = 0\<rparr>))) = False
   \<and> msgs_in_bucket (snd (ratelimit_ok 130 (snd (ratelimit_calls (replicate 60 125) \<lparr>last_bucket = 2, msgs_in_bucket = 0\<rparr>)))) = 60"
proof -
  let ?s = "\<lparr>last_bucket = 2, msgs_in_bucket = 0\<rparr>"
  have a: "msgs_in_bucket ?s = 0" by simp
  have b: "\<forall>t\<in>set (replicate 60 (125::real)). bucket_of t = last_bucket ?s"
    by (simp add: bucket_of_def)
  have c: "bucket_of 130 = last_bucket ?s" by (simp add: bucket_of_def)
  have d: "bucket_of 125 = 2" by (simp add: bucket_of_def)
  from ratelimit_sixty_then_deny [OF a b, of 130] a c d show ?thesis by simp
qed

lemma rate_reachable_bound:
  "rate_reachable s \<Longrightarrow> 0 \<le> msgs_in_bucket s \<and> msgs_in_bucket s \<le> RATE_LIMIT_PER_MIN"
proof (induction rule: rate_reachable.induct)
  case (rate_init t0)
  show ?case by (simp add: RATE_LIMIT_PER_MIN_def)
next
  case (rate_step s now)
  then show ?case
    by (auto simp add: ratelimit_ok_def RATE_LIMIT_PER_MIN_def Let_def)
qed

lemma ratelimit_ok_keeps_bound:
  "msgs_in_bucket s \<le> RATE_LIMIT_PER_MIN \<Longrightarrow>
   msgs_in_bucket (snd (ratelimit_ok now s)) \<le> RATE_LIMIT_PER_MIN"
  by (auto simp add: ratelimit_ok_def RATE_LIMIT_PER_MIN_def Let_def)

text \<open>
  Claim C8. In every state the rate limiter can reach, the counter is at most
  \<open>RATE_LIMIT_PER_MIN\<close>, whatever the stored bucket is; and a call of \<open>ratelimit_ok\<close>
  at any clock reading keeps the bound.
\<close>

theorem ratelimit_bound_invariant:
  "(rate_reachable s \<longrightarrow> msgs_in_bucket s \<le> RATE_LIMIT_PER_MIN)
   \<and> (msgs_in_bucket s \<le> RATE_LIMIT_PER_MIN \<longrightarrow>
        msgs_in_bucket (snd (ratelimit_ok now s)) \<le> RATE_LIMIT_PER_MIN)"
  using rate_reachable_bound [of s] ratelimit_ok_keeps_bound [of s now] by blast

theorem ratelimit_bound_invariant_witness:
  "rate_reachable (snd (ratelimit_ok 130 \<lparr>last_bucket = bucket_of 125, msgs_in_bucket = 0\<rparr>))
   \<and> msgs_in_bucket (snd (ratelimit_ok 130 \<lparr>last_bucket = bucket_of 125, msgs_in_bucket = 0\<rparr>)) = 1
   \<and> msgs_in_bucket (snd (ratelimit_ok 131 (snd (ratelimit_ok 130 \<lparr>last_bucket = bucket_of 125, msgs_in_bucket = 0\<rparr>)))) = 2"
proof -
  let ?s0 = "\<lparr>last_bucket = bucket_of 125, msgs_in_bucket = 0\<rparr>"
  have r: "rate_reachable (snd (ratelimit_ok 130 ?s0))"
    by (intro rate_step rate_init)
  have v: "snd (ratelimit_ok 130 ?s0) = \<lparr>last_bucket = 2, msgs_in_bucket = 1\<rparr>"
    by (simp add: ratelimit_ok_def bucket_of_def RATE_LIMIT_PER_MIN_def)
  have w: "snd (ratelimit_ok 131 \<lparr>last_bucket = 2, msgs_in_bucket = 1\<rparr>) = \<lparr>last_bucket = 2, msgs_in_bucket = 2\<rparr>"
    by (simp add: ratelimit_ok_def bucket_of_def RATE_LIMIT_PER_MIN_def)
  from ratelimit_bound_invariant [of "snd (ratelimit_ok 130 ?s0)" 131] r v w
  show ?thesis by simp
qed

section \<open>Properties of the dispatcher\<close>

lemma re_match_foo: "re_match_command (strip ''/foo'') = None"
  by code_simp

lemma match_alternatives_word:
  "match_alternatives ws r = Some (g, a) \<Longrightarrow> lower g \<in> set ws"
  by (induction ws) (auto simp add: match_word_def split: if_splits option.splits)

text \<open>
  Whenever the pattern matches, the first group is one of the three command words up to
  case, so the last line of \<open>try_tools\<close> is never reached.
\<close>

lemma re_match_command_word:
  assumes "re_match_command s = Some (g, a)"
  shows "lower g \<in> {''calc'', ''remember'', ''recall''}"
proof (cases s)
  case Nil
  with assms show ?thesis by (simp add: re_match_command_def)
next
  case (Cons c r)
  with assms have "match_alternatives [''calc'', ''remember'', ''recall''] r = Some (g, a)"
    by (simp add: re_match_command_def split: if_splits)
  from match_alternatives_word [OF this] show ?thesis by simp
qed

text \<open>
  The group of \<open>(.*)$\<close> is determined: any run without a line feed that is followed by
  the end of the text, or by a line feed that ends it, is the one \<open>match_arg\<close> returns.
\<close>

lemma match_arg_longest:
  assumes "drop j r = a @ rest" and "CHR 0x0A \<notin> set a" and "rest = [] \<or> rest = [CHR 0x0A]"
  shows "match_arg j r = Some a"
proof -
  from assms(2) have "\<And>x. x \<in> set a \<Longrightarrow> x \<noteq> CHR 0x0A" by blast
  then have "takeWhile (\<lambda>c. c \<noteq> CHR 0x0A) (a @ rest)
      = a @ takeWhile (\<lambda>c. c \<noteq> CHR 0x0A) rest"
    by (rule takeWhile_append2)
  with assms(3) have "takeWhile (\<lambda>c. c \<noteq> CHR 0x0A) (a @ rest) = a" by auto
  with assms show ?thesis by (auto simp add: match_arg_def Let_def)
qed

text \<open>A slash followed by anything that does not start with a command word is no command.\<close>

lemma try_tools_other_word:
  assumes "strip message_text = CHR ''/'' # r"
    and "\<not> match_word ''calc'' r" and "\<not> match_word ''remember'' r"
    and "\<not> match_word ''recall'' r"
  shows "try_tools P stamp message_text st = (Inr None, st)"
  using assms by (simp add: try_tools_def re_match_command_def)

text \<open>
  Claim C2. The claim says that a message such as \<open>/foo\<close>, a slash followed by an
  alphabetic word that is none of the three commands, gets the "unknown command" answer.
  The code returns \<open>None\<close> for it, the result that sends the message on to the composer.
\<close>

theorem try_tools_unknown_command_is_no_command:
  "try_tools P stamp ''/foo'' st = (Inr None, st)"
  by (simp add: try_tools_def re_match_foo)

section \<open>Properties of the calculator\<close>





lemma digit_iff: "c \<in> set ''0123456789'' \<longleftrightarrow> is_digit c"
  by (cases c) (simp add: is_digit_def)

lemma calc_class_kept: "calc_class c \<longleftrightarrow> \<not> kept c"
  by (auto simp add: calc_class_def kept_def digit_iff [symmetric])

lemma sanitize_filter: "sanitize s = filter kept s"
  by (induction s) (simp_all add: calc_class_kept)

text \<open>
  Claim C4 as stated fails: the claim keeps every whitespace character, the pattern of
  the source keeps the space only. On the four characters \<open>1\<close>, tab, \<open>+\<close>, \<open>1\<close> the
  filter of the claim would keep all four; the code drops the tab and, with Python's
  value of \<open>1+1\<close>, answers \<open>1+1 = 2\<close>.
\<close>

theorem sanitize_drops_tab:
  "sanitize [CHR ''1'', CHR 0x09, CHR ''+'', CHR ''1''] = ''1+1''
   \<and> filter kept_as_specified [CHR ''1'', CHR 0x09, CHR ''+'', CHR ''1'']
        = [CHR ''1'', CHR 0x09, CHR ''+'', CHR ''1'']
   \<and> tool_calc sample_platform [CHR ''1'', CHR 0x09, CHR ''+'', CHR ''1''] = Inr ''1+1 = 2''"
proof -
  have a: "sanitize [CHR ''1'', CHR 0x09, CHR ''+'', CHR ''1''] = ''1+1''"
    by (simp add: calc_class_def)
  have b: "filter kept_as_specified [CHR ''1'', CHR 0x09, CHR ''+'', CHR ''1'']
        = [CHR ''1'', CHR 0x09, CHR ''+'', CHR ''1'']"
    by (simp add: kept_as_specified_def is_digit_def isspace_def)
  have c: "tool_calc sample_platform [CHR ''1'', CHR 0x09, CHR ''+'', CHR ''1''] = Inr ''1+1 = 2''"
    unfolding tool_calc_def a by (simp add: sample_platform_def)
  from a b c show ?thesis by blast
qed

text \<open>
  Claim C4, amended. \<open>tool_calc\<close> removes every character that is not a digit, one of
  \<open>+-*/().\<close>, or the space character; the characters kept stay in their order. Only the
  sanitized expression is evaluated: two inputs with the same sanitized form get the same
  result. When the evaluation and the formatting succeed, the result is the sanitized
  expression, then \<open> = \<close>, then the formatted value.
\<close>

theorem tool_calc_sanitized_result:
  "sanitize expr = filter kept expr
   \<and> (\<forall>v shown. py_eval P (sanitize expr) = Inr v \<and> py_format P v = Inr shown \<longrightarrow>
         tool_calc P expr = Inr (sanitize expr @ '' = '' @ shown))
   \<and> (\<forall>expr'. sanitize expr' = sanitize expr \<longrightarrow> tool_calc P expr' = tool_calc P expr)"
  by (simp add: sanitize_filter [symmetric] tool_calc_def)

theorem tool_calc_sanitized_result_witness:
  "sanitize ''2 + 2 = ?'' = ''2 + 2  ''
   \<and> sanitize ''what is 2+2'' = ''  2+2''
   \<and> tool_calc sample_platform ''x2+2'' = Inr ''2+2 = 4''
   \<and> tool_calc sample_platform ''2+2=x'' = tool_calc sample_platform ''x2+2''"
proof -
  have a: "sanitize ''x2+2'' = ''2+2''" by (simp add: calc_class_def)
  have b: "sanitize ''2+2=x'' = sanitize ''x2+2''" by (simp add: calc_class_def)
  have c: "py_eval sample_platform (sanitize ''x2+2'') = Inr 4 \<and> py_format sample_platform 4 = Inr ''4''"
    unfolding a by (simp add: sample_platform_def)
  have d: "sanitize ''2 + 2 = ?'' = ''2 + 2  ''" by (simp add: calc_class_def)
  have e: "sanitize ''what is 2+2'' = ''  2+2''" by (simp add: calc_class_def)
  from tool_calc_sanitized_result [of "''x2+2''" sample_platform] a b c d e
  show ?thesis by (simp del: sanitize.simps)
qed

section \<open>Properties of the memory file\<close>

lemma save_mem_ops:
  "ops (save_mem P m d) =
     ops d @ [Write_file (MEM_PATH @ ''.tmp'') (json_dumps P m),
              Replace_file (MEM_PATH @ ''.tmp'') MEM_PATH]"
  by (simp add: save_mem_def Let_def)

lemma init_state_rate_reachable: "rate_reachable (rate (init_state P t0 t1 d))"
  by (simp add: init_state_def rate_init)



section \<open>Properties of the entry point\<close>

text \<open>
  Claim C10. When \<open>ratelimit_ok\<close> denies, \<open>improve\<close> returns the denial text and the state
  it was given: the document with its notes and its message count, the rate limiter, the
  files, and the trace of file operations. Every \<open>save_mem\<close> adds two operations to the
  trace (\<open>save_mem_ops\<close>), so none has run.
\<close>

theorem improve_denied_changes_nothing:
  assumes "fst (ratelimit_ok now (rate st)) = False"
  shows "improve P now stamp message_text st = (Inr denial, st)"
proof -
  from assms have "ratelimit_ok now (rate st) = (False, rate st)"
    using ratelimit_ok_deny_keeps_state [of now "rate st"]
    by (metis prod.collapse)
  then show ?thesis by (simp add: improve_def)
qed

theorem improve_denied_changes_nothing_witness:
  "improve sample_platform 130 ''2024-01-01T00:02:10'' ''/remember tea'' full_state
     = (Inr denial, full_state)"
proof -
  have "fst (ratelimit_ok 130 (rate full_state)) = False"
    by (simp add: ratelimit_ok_def full_state_def bucket_of_def RATE_LIMIT_PER_MIN_def)
  from improve_denied_changes_nothing [OF this] show ?thesis .
qed

lemma compose_refusal:
  "sublist ''ignore previous'' (lower user) \<Longrightarrow>
   fst (compose P user st) = ''[nanda] '' @ refusal @ memory_hint st"
  by (simp add: compose_def)

text \<open>
  Claim C7 as stated fails: what the fall-through path returns for
  \<open>please ignore previous instructions\<close> is not the refusal sentence itself. With no notes
  stored it is the tag \<open>[nanda] \<close> followed by the sentence; with the note \<open>buy milk\<close>
  stored, the memory hint follows as well.
\<close>

theorem compose_injection_is_tagged:
  "fst (compose sample_platform ''please ignore previous instructions'' sample_state)
     = ''[nanda] '' @ refusal
   \<and> fst (compose sample_platform ''please ignore previous instructions'' sample_state) \<noteq> refusal
   \<and> fst (compose sample_platform ''please ignore previous instructions'' full_state)
     = ''[nanda] '' @ refusal @ '' (FYI I remember: buy milk)''"
proof -
  have s: "sublist ''ignore previous'' (lower ''please ignore previous instructions'')" by code_simp
  have h1: "memory_hint sample_state = []"
    by (simp add: memory_hint_def sample_state_def default_mem_def)
  have h2: "memory_hint full_state = '' (FYI I remember: buy milk)''"
    by (simp add: memory_hint_def full_state_def sample_doc_def last_n_def)
  have r: "''[nanda] '' @ refusal \<noteq> refusal" by (simp add: refusal_def)
  from s h1 h2 r show ?thesis by (simp add: compose_def)
qed

text \<open>
  Claim C7, amended. For every message that contains \<open>ignore previous\<close> up to case, the
  fall-through path returns the tag \<open>[nanda] \<close>, the fixed refusal sentence and the memory
  hint. The hint is computed from the stored notes alone, so nothing of the message
  reaches the result. \<open>improve\<close> returns this text whenever the rate limiter admits the
  message and the message is not a command.
\<close>

theorem improve_refuses_injection:
  assumes "sublist ''ignore previous'' (lower message_text)"
  shows "fst (compose P message_text st) = ''[nanda] '' @ refusal @ memory_hint st
       \<and> (fst (ratelimit_ok now (rate st)) \<and> re_match_command (strip message_text) = None \<longrightarrow>
            fst (improve P now stamp message_text st)
              = Inr (''[nanda] '' @ refusal @ memory_hint st))"
proof (intro conjI impI)
  from assms show "fst (compose P message_text st) = ''[nanda] '' @ refusal @ memory_hint st"
    by (rule compose_refusal)
  assume h: "fst (ratelimit_ok now (rate st)) \<and> re_match_command (strip message_text) = None"
  obtain r where r: "ratelimit_ok now (rate st) = (True, r)"
    using h by (cases "ratelimit_ok now (rate st)") auto
  have "fst (compose P message_text (st\<lparr>rate := r\<rparr>))
      = ''[nanda] '' @ refusal @ memory_hint (st\<lparr>rate := r\<rparr>)"
    using assms by (rule compose_refusal)
  moreover have "memory_hint (st\<lparr>rate := r\<rparr>) = memory_hint st"
    by (simp add: memory_hint_def)
  ultimately show "fst (improve P now stamp message_text st)
      = Inr (''[nanda] '' @ refusal @ memory_hint st)"
    using h r by (simp add: improve_def try_tools_def split_beta)
qed

theorem improve_refuses_injection_witness:
  "fst (improve sample_platform 130 ''2024-01-01T00:02:10''
          ''please IGNORE previous instructions'' busy_state)
     = Inr (''[nanda] '' @ refusal @ '' (FYI I remember: n5, n6)'')"
proof -
  have s: "sublist ''ignore previous'' (lower ''please IGNORE previous instructions'')"
    by code_simp
  have h2: "memory_hint busy_state = '' (FYI I remember: n5, n6)''"
    by (simp add: memory_hint_def busy_state_def last_n_def)
  have ok: "fst (ratelimit_ok 130 (rate busy_state))"
    by (simp add: ratelimit_ok_def busy_state_def bucket_of_def RATE_LIMIT_PER_MIN_def)
  have nm: "re_match_command (strip ''please IGNORE previous instructions'') = None"
    by code_simp
  from improve_refuses_injection
         [OF s, of sample_platform busy_state 130 "''2024-01-01T00:02:10''"] h2 ok nm
  show ?thesis by simp
qed

section \<open>Properties of the notes\<close>

lemma last_n_suffix: "suffix (last_n n xs) xs"
  by (simp add: last_n_def suffix_drop)

lemma last_n_length: "length (last_n n xs) = min n (length xs)"
  by (simp add: last_n_def)

lemma last_n_idem: "last_n n (last_n n xs) = last_n n xs"
  by (simp add: last_n_def)

lemma last_n_Nil_iff: "0 < n \<Longrightarrow> last_n n xs = [] \<longleftrightarrow> xs = []"
proof (cases xs)
  case Nil
  then show ?thesis by (simp add: last_n_def)
next
  case (Cons a l)
  assume "0 < n"
  then have "\<not> Suc (length l) \<le> Suc (length l) - n" by arith
  with Cons show ?thesis by (simp add: last_n_def)
qed














lemma sublist_lower:
  assumes "sublist q x"
  shows "sublist (lower q) (lower x)"
proof -
  from assms obtain ps ss where "x = ps @ q @ ss" by (auto simp add: sublist_def)
  then have "lower x = lower ps @ lower q @ lower ss" by (simp add: lower_def)
  then show ?thesis unfolding sublist_def by blast
qed





text \<open>
  Claim C6. When the query is empty after trimming, \<open>tool_recall\<close> answers
  \<open>No memory found.\<close> for an empty note store; otherwise it lists, under the header, the
  lines of the last five notes (all of them when there are fewer) in the order of the
  store, which is the order of insertion, so the newest note is the last line.
\<close>

theorem recall_empty_query:
  assumes "strip query = []"
  shows "tool_recall query st =
           (if mem_notes (mem st) = [] then ''No memory found.''
            else ''Recent memory:'' @ [CHR 0x0A]
                 @ join [CHR 0x0A] (map recall_line (last_n 5 (mem_notes (mem st)))))
       \<and> length (last_n 5 (mem_notes (mem st))) = min 5 (length (mem_notes (mem st)))
       \<and> suffix (last_n 5 (mem_notes (mem st))) (mem_notes (mem st))"
  using assms
  by (simp add: tool_recall_def Let_def lower_def last_n_idem last_n_Nil_iff last_n_length last_n_suffix)

theorem recall_empty_query_witness:
  "tool_recall ''  '' busy_state
     = ''Recent memory:'' @ [CHR 0x0A] @ ''- n2 (@t2)'' @ [CHR 0x0A] @ ''- n3 (@t3)'' @ [CHR 0x0A]
       @ ''- n4 (@t4)'' @ [CHR 0x0A] @ ''- n5 (@t5)'' @ [CHR 0x0A] @ ''- n6 (@t6)''
   \<and> tool_recall [] sample_state = ''No memory found.''"
proof -
  have a: "strip ''  '' = []" by (simp add: strip_def isspace_def)
  have b: "strip [] = []" by (simp add: strip_def)
  have n: "mem_notes (mem sample_state) = []" by (simp add: sample_state_def default_mem_def)
  have m: "(if mem_notes (mem busy_state) = [] then ''No memory found.''
            else ''Recent memory:'' @ [CHR 0x0A]
                 @ join [CHR 0x0A] (map recall_line (last_n 5 (mem_notes (mem busy_state)))))
     = ''Recent memory:'' @ [CHR 0x0A] @ ''- n2 (@t2)'' @ [CHR 0x0A] @ ''- n3 (@t3)'' @ [CHR 0x0A]
       @ ''- n4 (@t4)'' @ [CHR 0x0A] @ ''- n5 (@t5)'' @ [CHR 0x0A] @ ''- n6 (@t6)''"
    by (simp add: busy_state_def last_n_def recall_line_def)
  from recall_empty_query [OF a, of busy_state] have "tool_recall ''  '' busy_state =
      (if mem_notes (mem busy_state) = [] then ''No memory found.''
       else ''Recent memory:'' @ [CHR 0x0A]
            @ join [CHR 0x0A] (map recall_line (last_n 5 (mem_notes (mem busy_state)))))"
    by (rule conjunct1)
  moreover from recall_empty_query [OF b, of sample_state] n
  have "tool_recall [] sample_state = ''No memory found.''" by simp
  ultimately show ?thesis using m by (simp only:)
qed

end
